theory Spec2Isabelle
  imports Complex_Main
begin

section \<open>JavaScript numbers\<close>

text \<open>
  The component computes with JavaScript \<open>number\<close>s, the binary64 format of IEEE 754.
  A number is modelled as a finite value or one of the three special values. Every
  finite result of \<open>+\<close>, \<open>-\<close>, \<open>*\<close> and \<open>/\<close> is rounded to the nearest number
  with 53 significant bits, ties to even, and becomes an infinity beyond the largest
  finite number, as the format prescribes. Two things are left out: zero carries no sign,
  so a zero divisor behaves as \<open>+0\<close> (this is what \<open>getBoundingClientRect\<close> reports
  for an empty box), and results below \<open>2^-1022\<close> in magnitude keep their 53 bits
  (no gradual underflow). The special values follow the IEEE rules that JavaScript
  uses: \<open>x / 0\<close> is an infinity with the sign of \<open>x\<close>, \<open>0 / 0\<close> is \<open>NaN\<close>, and
  \<open>NaN\<close> propagates through arithmetic, \<open>Math.max\<close> and \<open>Math.min\<close>.
\<close>

datatype number = Fin real | PosInf | NegInf | NaN

fun is_finite :: "number \<Rightarrow> bool" where
  "is_finite (Fin _) = True"
| "is_finite _ = False"

text \<open>Powers of two with an integer exponent.\<close>

definition pow2 :: "int \<Rightarrow> real" where
  "pow2 k = (if 0 \<le> k then 2 ^ nat k else 1 / 2 ^ nat (- k))"

text \<open>
  The binary exponent of a positive real: the \<open>k\<close> with \<open>2^k <= x < 2^(k+1)\<close>,
  found by halving or doubling until the value lies in \<open>[1, 2)\<close>.
\<close>

function expo :: "real \<Rightarrow> int" where
  "expo x = (if x \<le> 0 then 0
             else if 2 \<le> x then expo (x / 2) + 1
             else if x < 1 then expo (x * 2) - 1
             else 0)"
  by pat_completeness auto
termination
proof (relation "measure (\<lambda>x. nat \<bar>\<lfloor>log 2 x\<rfloor>\<bar>)")
  show "wf (measure (\<lambda>x. nat \<bar>\<lfloor>log 2 x\<rfloor>\<bar>))" by simp
next
  fix x :: real
  assume a: "\<not> x \<le> 0" "2 \<le> x"
  then have l: "log 2 (x / 2) = log 2 x - 1" by (simp add: log_divide)
  from a have "1 \<le> log 2 x" by (simp add: le_log_iff)
  then have "1 \<le> \<lfloor>log 2 x\<rfloor>" by linarith
  then show "(x / 2, x) \<in> measure (\<lambda>x. nat \<bar>\<lfloor>log 2 x\<rfloor>\<bar>)"
    by (simp add: l)
next
  fix x :: real
  assume a: "\<not> x \<le> 0" "\<not> 2 \<le> x" "x < 1"
  then have l: "log 2 (x * 2) = log 2 x + 1" by (simp add: log_mult)
  from a have "log 2 x < 0" by simp
  then have "\<lfloor>log 2 x\<rfloor> \<le> -1" by linarith
  then show "(x * 2, x) \<in> measure (\<lambda>x. nat \<bar>\<lfloor>log 2 x\<rfloor>\<bar>)"
    by (simp add: l)
qed

declare expo.simps [simp del]

text \<open>The nearest integer, a tie going to the even one.\<close>

definition round_even :: "real \<Rightarrow> int" where
  "round_even y =
     (let f = \<lfloor>y\<rfloor>; d = y - of_int f
      in if d < 1 / 2 then f else if 1 / 2 < d then f + 1 else if even f then f else f + 1)"

text \<open>
  Rounding to 53 significant bits: the value is scaled so that its integer part has 53
  bits, rounded to the nearest integer, and scaled back.
\<close>

definition rnd :: "real \<Rightarrow> real" where
  "rnd x =
     (if x = 0 then 0
      else let k = expo \<bar>x\<bar> - 52
           in sgn x * of_int (round_even (\<bar>x\<bar> / pow2 k)) * pow2 k)"

text \<open>\<open>Number.MAX_VALUE\<close>, and the number that an exact result becomes.\<close>

definition max_double :: real where
  "max_double = (2 ^ 53 - 1) * 2 ^ 971"

definition fl :: "real \<Rightarrow> number" where
  "fl x =
     (let r = rnd x
      in if max_double < r then PosInf else if r < - max_double then NegInf else Fin r)"

definition inf_of_sign :: "real \<Rightarrow> number" where
  "inf_of_sign r = (if 0 < r then PosInf else if r < 0 then NegInf else NaN)"

fun js_neg :: "number \<Rightarrow> number" where
  "js_neg (Fin a) = Fin (- a)"
| "js_neg PosInf = NegInf"
| "js_neg NegInf = PosInf"
| "js_neg NaN = NaN"

fun js_add :: "number \<Rightarrow> number \<Rightarrow> number" where
  "js_add (Fin a) (Fin b) = fl (a + b)"
| "js_add (Fin a) PosInf = PosInf"
| "js_add (Fin a) NegInf = NegInf"
| "js_add PosInf (Fin b) = PosInf"
| "js_add PosInf PosInf = PosInf"
| "js_add PosInf NegInf = NaN"
| "js_add NegInf (Fin b) = NegInf"
| "js_add NegInf NegInf = NegInf"
| "js_add NegInf PosInf = NaN"
| "js_add NaN _ = NaN"
| "js_add _ NaN = NaN"

definition js_sub :: "number \<Rightarrow> number \<Rightarrow> number" where
  "js_sub a b = js_add a (js_neg b)"

fun js_mul :: "number \<Rightarrow> number \<Rightarrow> number" where
  "js_mul (Fin a) (Fin b) = fl (a * b)"
| "js_mul (Fin a) PosInf = inf_of_sign a"
| "js_mul (Fin a) NegInf = inf_of_sign (- a)"
| "js_mul PosInf (Fin b) = inf_of_sign b"
| "js_mul NegInf (Fin b) = inf_of_sign (- b)"
| "js_mul PosInf PosInf = PosInf"
| "js_mul PosInf NegInf = NegInf"
| "js_mul NegInf PosInf = NegInf"
| "js_mul NegInf NegInf = PosInf"
| "js_mul NaN _ = NaN"
| "js_mul _ NaN = NaN"

fun js_div :: "number \<Rightarrow> number \<Rightarrow> number" where
  "js_div (Fin a) (Fin b) = (if b = 0 then inf_of_sign a else fl (a / b))"
| "js_div (Fin a) PosInf = Fin 0"
| "js_div (Fin a) NegInf = Fin 0"
| "js_div PosInf (Fin b) = (if b < 0 then NegInf else PosInf)"
| "js_div NegInf (Fin b) = (if b < 0 then PosInf else NegInf)"
| "js_div PosInf PosInf = NaN"
| "js_div PosInf NegInf = NaN"
| "js_div NegInf PosInf = NaN"
| "js_div NegInf NegInf = NaN"
| "js_div NaN _ = NaN"
| "js_div _ NaN = NaN"

text \<open>The comparison \<open>a <= b\<close> of JavaScript: false as soon as one side is \<open>NaN\<close>.\<close>

fun js_le :: "number \<Rightarrow> number \<Rightarrow> bool" where
  "js_le (Fin a) (Fin b) = (a \<le> b)"
| "js_le (Fin a) PosInf = True"
| "js_le (Fin a) NegInf = False"
| "js_le PosInf (Fin b) = False"
| "js_le PosInf PosInf = True"
| "js_le PosInf NegInf = False"
| "js_le NegInf (Fin b) = True"
| "js_le NegInf PosInf = True"
| "js_le NegInf NegInf = True"
| "js_le NaN _ = False"
| "js_le _ NaN = False"

fun Math_max :: "number \<Rightarrow> number \<Rightarrow> number" where
  "Math_max (Fin a) (Fin b) = Fin (max a b)"
| "Math_max (Fin a) PosInf = PosInf"
| "Math_max (Fin a) NegInf = Fin a"
| "Math_max PosInf (Fin b) = PosInf"
| "Math_max PosInf PosInf = PosInf"
| "Math_max PosInf NegInf = PosInf"
| "Math_max NegInf (Fin b) = Fin b"
| "Math_max NegInf PosInf = PosInf"
| "Math_max NegInf NegInf = NegInf"
| "Math_max NaN _ = NaN"
| "Math_max _ NaN = NaN"

fun Math_min :: "number \<Rightarrow> number \<Rightarrow> number" where
  "Math_min (Fin a) (Fin b) = Fin (min a b)"
| "Math_min (Fin a) PosInf = Fin a"
| "Math_min (Fin a) NegInf = NegInf"
| "Math_min PosInf (Fin b) = Fin b"
| "Math_min PosInf PosInf = PosInf"
| "Math_min PosInf NegInf = NegInf"
| "Math_min NegInf (Fin b) = NegInf"
| "Math_min NegInf PosInf = NegInf"
| "Math_min NegInf NegInf = NegInf"
| "Math_min NaN _ = NaN"
| "Math_min _ NaN = NaN"

section \<open>The component: props, state, clamp\<close>

text \<open>
  \<open>const clamp = (v, min, max) => Math.min(Math.max(v, min), max)\<close>
\<close>

definition clamp :: "number \<Rightarrow> number \<Rightarrow> number \<Rightarrow> number" where
  "clamp v mn mx = Math_min (Math_max v mn) mx"

text \<open>
  \<open>FlexibleScreenProps\<close>: every bound and \<open>initial\<close> are optional; \<open>None\<close> is
  \<open>undefined\<close>. \<open>storageKey\<close> is \<open>string | null\<close> with default \<open>null\<close>, so
  \<open>None\<close> stands for both \<open>undefined\<close> and \<open>null\<close>. The three render callbacks
  produce content only and are left out.
\<close>

record initial_pct =
  initial_topPct :: "number option"
  initial_leftPct :: "number option"

record FlexibleScreenProps =
  prop_minTopPct :: "number option"
  prop_minBottomPct :: "number option"
  prop_minLeftPct :: "number option"
  prop_minRightPct :: "number option"
  prop_initial :: "initial_pct option"
  prop_storageKey :: "string option"

text \<open>The destructured parameters of \<open>FlexibleScreen\<close>, defaults applied.\<close>

record config =
  minTopPct :: number
  minBottomPct :: number
  minLeftPct :: number
  minRightPct :: number
  initial :: initial_pct
  storageKey :: "string option"

definition or_default :: "'a option \<Rightarrow> 'a \<Rightarrow> 'a" where
  "or_default v d = (case v of None \<Rightarrow> d | Some x \<Rightarrow> x)"

definition destructure :: "FlexibleScreenProps \<Rightarrow> config" where
  "destructure p =
     \<lparr> minTopPct = or_default (prop_minTopPct p) (Fin 20),
       minBottomPct = or_default (prop_minBottomPct p) (Fin 20),
       minLeftPct = or_default (prop_minLeftPct p) (Fin 15),
       minRightPct = or_default (prop_minRightPct p) (Fin 15),
       initial = or_default (prop_initial p)
                   \<lparr> initial_topPct = Some (Fin 65), initial_leftPct = Some (Fin 50) \<rparr>,
       storageKey = prop_storageKey p \<rparr>"

text \<open>The two clamp ranges, written as every call site writes them.\<close>

definition top_max :: "config \<Rightarrow> number" where
  "top_max cfg = js_sub (Fin 100) (minBottomPct cfg)"

definition left_max :: "config \<Rightarrow> number" where
  "left_max cfg = js_sub (Fin 100) (minRightPct cfg)"

definition in_range :: "number \<Rightarrow> number \<Rightarrow> number \<Rightarrow> bool" where
  "in_range v mn mx = (js_le mn v \<and> js_le v mx)"

section \<open>Platform: errors, JSON values, localStorage\<close>

text \<open>The exceptions that the platform calls used by the component can throw.\<close>

datatype error = TypeError | SyntaxError | SecurityError | QuotaExceededError

text \<open>What \<open>JSON.parse\<close> returns. An object is its list of own properties.\<close>

datatype jsvalue =
    JNull
  | JBool bool
  | JNumber number
  | JString string
  | JArray "jsvalue list"
  | JObject "(string \<times> jsvalue) list"

text \<open>
  \<open>JSON.parse\<close> and \<open>JSON.stringify\<close> belong to the JavaScript engine, not to the
  repository: they are parameters of the model. \<open>Inl\<close> is a thrown exception.
\<close>

record platform =
  JSON_parse :: "string \<Rightarrow> error + jsvalue"
  JSON_stringify :: "jsvalue \<Rightarrow> string"

text \<open>
  \<open>localStorage\<close>: the stored items, whether access is denied (every call then
  throws \<open>SecurityError\<close>), and the length of the longest value that \<open>setItem\<close>
  still accepts (a longer one throws \<open>QuotaExceededError\<close>).
\<close>

record localStorage =
  items :: "string \<rightharpoonup> string"
  denied :: bool
  quota :: nat

definition getItem :: "localStorage \<Rightarrow> string \<Rightarrow> error + string option" where
  "getItem ls k = (if denied ls then Inl SecurityError else Inr (items ls k))"

definition setItem :: "localStorage \<Rightarrow> string \<Rightarrow> string \<Rightarrow> error + localStorage" where
  "setItem ls k v =
     (if denied ls then Inl SecurityError
      else if quota ls < length v then Inl QuotaExceededError
      else Inr (ls\<lparr>items := (items ls)(k \<mapsto> v)\<rparr>))"

text \<open>
  \<open>parsed?.topPct\<close>: reading a property off a parsed value. \<open>None\<close> is
  \<open>undefined\<close>: the result for \<open>null\<close> (by \<open>?.\<close>), for a primitive, for an array
  (whose own properties are indices) and for an object without the property.
\<close>

fun property :: "jsvalue \<Rightarrow> string \<Rightarrow> jsvalue option" where
  "property (JObject kvs) k = map_of kvs k"
| "property _ k = None"

text \<open>\<open>typeof x === 'number'\<close>, giving the number when it holds.\<close>

fun as_number :: "jsvalue option \<Rightarrow> number option" where
  "as_number (Some (JNumber n)) = Some n"
| "as_number _ = None"

section \<open>Layout state and its seeding from storage\<close>

datatype drag_type = horizontal | vertical

text \<open>
  The component's mutable state: the two \<open>useState\<close> cells, \<open>dragRef.current\<close>
  (\<open>None\<close> is \<open>null\<close>; the object holds the field \<open>type\<close> only), and whether
  \<open>document.body\<close> carries the class \<open>select-none\<close>.
\<close>

record component =
  topPct :: number
  leftPct :: number
  dragRef :: "drag_type option"
  select_none :: bool

record stored_layout =
  stored_topPct :: number
  stored_leftPct :: number

text \<open>
  \<open>readStored\<close>. \<open>!storageKey\<close> holds for \<open>null\<close> and for the empty string;
  \<open>!raw\<close> holds for a missing item (\<open>getItem\<close> gives \<open>null\<close>) and for the empty
  string. Every exception thrown inside the \<open>try\<close> block ends in \<open>return null\<close>.
\<close>

definition readStored :: "platform \<Rightarrow> config \<Rightarrow> localStorage \<Rightarrow> stored_layout option" where
  "readStored P cfg ls =
     (case storageKey cfg of
        None \<Rightarrow> None
      | Some k \<Rightarrow>
          if k = [] then None
          else (case getItem ls k of
                  Inl _ \<Rightarrow> None
                | Inr None \<Rightarrow> None
                | Inr (Some raw) \<Rightarrow>
                    if raw = [] then None
                    else (case JSON_parse P raw of
                            Inl _ \<Rightarrow> None
                          | Inr parsed \<Rightarrow>
                              (case (as_number (property parsed ''topPct''),
                                     as_number (property parsed ''leftPct'')) of
                                 (Some t, Some l) \<Rightarrow>
                                   Some \<lparr> stored_topPct = clamp t (minTopPct cfg) (top_max cfg),
                                          stored_leftPct = clamp l (minLeftPct cfg) (left_max cfg) \<rparr>
                               | _ \<Rightarrow> None))))"

text \<open>
  The two \<open>useState\<close> initialisers:
  \<open>stored?.topPct ?? (initial.topPct ?? 65)\<close> and \<open>stored?.leftPct ?? (initial.leftPct ?? 50)\<close>.
  No drag is in progress at the first render.
\<close>

definition initialize :: "platform \<Rightarrow> config \<Rightarrow> localStorage \<Rightarrow> component" where
  "initialize P cfg ls =
     (let stored = readStored P cfg ls in
      \<lparr> topPct = or_default (map_option stored_topPct stored)
                   (or_default (initial_topPct (initial cfg)) (Fin 65)),
        leftPct = or_default (map_option stored_leftPct stored)
                    (or_default (initial_leftPct (initial cfg)) (Fin 50)),
        dragRef = None,
        select_none = False \<rparr>)"

section \<open>Persistence effect\<close>

text \<open>The object literal \<open>{ topPct, leftPct }\<close> handed to \<open>JSON.stringify\<close>.\<close>

definition layout_object :: "number \<Rightarrow> number \<Rightarrow> jsvalue" where
  "layout_object t l = JObject [(''topPct'', JNumber t), (''leftPct'', JNumber l)]"

text \<open>The \<open>try\<close> block of the effect, and the effect with its empty \<open>catch\<close>.\<close>

definition persist_try :: "platform \<Rightarrow> string \<Rightarrow> component \<Rightarrow> localStorage \<Rightarrow> error + localStorage" where
  "persist_try P k c ls = setItem ls k (JSON_stringify P (layout_object (topPct c) (leftPct c)))"

definition persist :: "platform \<Rightarrow> config \<Rightarrow> component \<Rightarrow> localStorage \<Rightarrow> localStorage" where
  "persist P cfg c ls =
     (case storageKey cfg of
        None \<Rightarrow> ls
      | Some k \<Rightarrow>
          if k = [] then ls
          else (case persist_try P k c ls of Inl _ \<Rightarrow> ls | Inr ls' \<Rightarrow> ls'))"

section \<open>Drag controller\<close>

text \<open>A \<open>DOMRect\<close> as returned by \<open>getBoundingClientRect\<close> (the fields that are read).\<close>

record rect =
  rect_left :: number
  rect_top :: number
  rect_width :: number
  rect_height :: number

text \<open>
  What the two refs point to when an event arrives: \<open>None\<close> is a \<open>null\<close> ref, on
  which \<open>containerRef.current!.getBoundingClientRect()\<close> throws \<open>TypeError\<close>;
  otherwise the bounding box of the element at that moment.
\<close>

record dom =
  containerRef :: "rect option"
  topAreaRef :: "rect option"

record pointer_event =
  clientX :: number
  clientY :: number

definition onPointerMove :: "config \<Rightarrow> dom \<Rightarrow> pointer_event \<Rightarrow> component \<Rightarrow> error + component" where
  "onPointerMove cfg d e c =
     (case dragRef c of
        None \<Rightarrow> Inr c
      | Some ty \<Rightarrow>
          if ty = horizontal then
            (case containerRef d of
               None \<Rightarrow> Inl TypeError
             | Some r \<Rightarrow>
                 let y = js_sub (clientY e) (rect_top r);
                     pct = js_mul (js_div y (rect_height r)) (Fin 100);
                     next = clamp pct (minTopPct cfg) (top_max cfg)
                 in Inr (c\<lparr>topPct := next\<rparr>))
          else
            (case topAreaRef d of
               None \<Rightarrow> Inl TypeError
             | Some r \<Rightarrow>
                 let x = js_sub (clientX e) (rect_left r);
                     pct = js_mul (js_div x (rect_width r)) (Fin 100);
                     next = clamp pct (minLeftPct cfg) (left_max cfg)
                 in Inr (c\<lparr>leftPct := next\<rparr>)))"

definition stopDragging :: "component \<Rightarrow> component" where
  "stopDragging c = c\<lparr>dragRef := None, select_none := False\<rparr>"

definition startDrag :: "drag_type \<Rightarrow> component \<Rightarrow> component" where
  "startDrag ty c = c\<lparr>dragRef := Some ty, select_none := True\<rparr>"

section \<open>Keyboard controller\<close>

definition step :: number where
  "step = Fin 2"

text \<open>
  The handlers take \<open>e.key\<close>. \<open>e.preventDefault()\<close> acts on the event only and
  is not part of the component's state.
\<close>

definition handleVerticalKey :: "config \<Rightarrow> string \<Rightarrow> component \<Rightarrow> component" where
  "handleVerticalKey cfg key c =
     (if key = ''ArrowLeft'' then
        c\<lparr>leftPct := clamp (js_sub (leftPct c) step) (minLeftPct cfg) (left_max cfg)\<rparr>
      else if key = ''ArrowRight'' then
        c\<lparr>leftPct := clamp (js_add (leftPct c) step) (minLeftPct cfg) (left_max cfg)\<rparr>
      else if key = ''Home'' then
        c\<lparr>leftPct := Fin 50\<rparr>
      else c)"

definition handleHorizontalKey :: "config \<Rightarrow> string \<Rightarrow> component \<Rightarrow> component" where
  "handleHorizontalKey cfg key c =
     (if key = ''ArrowUp'' then
        c\<lparr>topPct := clamp (js_sub (topPct c) step) (minTopPct cfg) (top_max cfg)\<rparr>
      else if key = ''ArrowDown'' then
        c\<lparr>topPct := clamp (js_add (topPct c) step) (minTopPct cfg) (top_max cfg)\<rparr>
      else if key = ''Home'' then
        c\<lparr>topPct := Fin 66\<rparr>
      else c)"

section \<open>Events and runs\<close>

text \<open>
  The events the component listens to: \<open>pointerdown\<close> on one of the two handles,
  \<open>pointermove\<close>, \<open>pointerup\<close> and \<open>pointercancel\<close> on \<open>window\<close>, and
  \<open>keydown\<close> on one of the two handles. A move carries the geometry of the page at
  that moment.
\<close>

datatype event =
    PointerDown drag_type
  | PointerMove dom pointer_event
  | PointerUp
  | PointerCancel
  | KeyDownVertical string
  | KeyDownHorizontal string

text \<open>
  One event. An exception thrown by the move listener is reported by the browser and
  leaves the state as it was: the listener throws before it calls a setter.
\<close>

fun handle :: "config \<Rightarrow> event \<Rightarrow> component \<Rightarrow> component" where
  "handle cfg (PointerDown ty) c = startDrag ty c"
| "handle cfg (PointerMove d e) c =
     (case onPointerMove cfg d e c of Inl _ \<Rightarrow> c | Inr c' \<Rightarrow> c')"
| "handle cfg PointerUp c = stopDragging c"
| "handle cfg PointerCancel c = stopDragging c"
| "handle cfg (KeyDownVertical key) c = handleVerticalKey cfg key c"
| "handle cfg (KeyDownHorizontal key) c = handleHorizontalKey cfg key c"

fun run :: "config \<Rightarrow> event list \<Rightarrow> component \<Rightarrow> component" where
  "run cfg [] c = c"
| "run cfg (ev # evs) c = run cfg evs (handle cfg ev c)"

text \<open>
  One event followed by the render it causes: the persistence effect has the
  dependencies \<open>[topPct, leftPct, storageKey]\<close>, so it runs again exactly when one of
  the two ratios has changed.
\<close>

definition commit :: "platform \<Rightarrow> config \<Rightarrow> event \<Rightarrow> component \<times> localStorage \<Rightarrow> component \<times> localStorage" where
  "commit P cfg ev cs =
     (let c = fst cs; ls = snd cs; c' = handle cfg ev c in
      (c', if topPct c' \<noteq> topPct c \<or> leftPct c' \<noteq> leftPct c then persist P cfg c' ls else ls))"

text \<open>The first render: the state is seeded, then the effect runs once.\<close>

definition mount :: "platform \<Rightarrow> FlexibleScreenProps \<Rightarrow> localStorage \<Rightarrow> component \<times> localStorage" where
  "mount P p ls =
     (let cfg = destructure p; c = initialize P cfg ls in (c, persist P cfg c ls))"

text \<open>The props that \<open>App\<close> passes.\<close>

definition App_props :: FlexibleScreenProps where
  "App_props =
     \<lparr> prop_minTopPct = Some (Fin 20), prop_minBottomPct = Some (Fin 20),
       prop_minLeftPct = Some (Fin 15), prop_minRightPct = Some (Fin 15),
       prop_initial = Some \<lparr> initial_topPct = Some (Fin 70), initial_leftPct = Some (Fin 50) \<rparr>,
       prop_storageKey = Some ''flexible-screen-layout'' \<rparr>"

section \<open>Predicates of the statements\<close>

text \<open>Both clamp ranges are non-empty: \<open>min <= max\<close>, which no side being \<open>NaN\<close> allows.\<close>

definition valid_bounds :: "config \<Rightarrow> bool" where
  "valid_bounds cfg =
     (js_le (minTopPct cfg) (top_max cfg) \<and> js_le (minLeftPct cfg) (left_max cfg))"

text \<open>Both ratios lie within their clamp ranges.\<close>

definition layout_ok :: "config \<Rightarrow> component \<Rightarrow> bool" where
  "layout_ok cfg c =
     (in_range (topPct c) (minTopPct cfg) (top_max cfg) \<and>
      in_range (leftPct c) (minLeftPct cfg) (left_max cfg))"

text \<open>
  A pointer coordinate \<open>p\<close> against a box with the given origin and extent: all three
  are finite, and the pointer is not exactly at the origin of a box of extent zero (the
  one case in which the move listener computes \<open>0 / 0\<close>).
\<close>

definition usable :: "number \<Rightarrow> number \<Rightarrow> number \<Rightarrow> bool" where
  "usable p origin ext =
     (is_finite p \<and> is_finite origin \<and> is_finite ext \<and> \<not> (p = origin \<and> ext = Fin 0))"

text \<open>
  The events under which the ranges are kept, given the state each arrives in: a move
  during a drag whose geometry is usable on the session's axis (when the ref of that
  axis is attached), and a Home key only where the value it resets to lies within the
  range. Every other event qualifies.
\<close>

fun event_ok :: "config \<Rightarrow> component \<Rightarrow> event \<Rightarrow> bool" where
  "event_ok cfg c (PointerMove d e) =
     (case dragRef c of
        None \<Rightarrow> True
      | Some ty \<Rightarrow>
          if ty = horizontal then
            (case containerRef d of
               None \<Rightarrow> True
             | Some r \<Rightarrow> usable (clientY e) (rect_top r) (rect_height r))
          else
            (case topAreaRef d of
               None \<Rightarrow> True
             | Some r \<Rightarrow> usable (clientX e) (rect_left r) (rect_width r)))"
| "event_ok cfg c (KeyDownVertical key) =
     (key = ''Home'' \<longrightarrow> in_range (Fin 50) (minLeftPct cfg) (left_max cfg))"
| "event_ok cfg c (KeyDownHorizontal key) =
     (key = ''Home'' \<longrightarrow> in_range (Fin 66) (minTopPct cfg) (top_max cfg))"
| "event_ok cfg c _ = True"

text \<open>Every event of a run qualifies in the state it arrives in.\<close>

fun run_ok :: "config \<Rightarrow> event list \<Rightarrow> component \<Rightarrow> bool" where
  "run_ok cfg [] c = True"
| "run_ok cfg (ev # evs) c = (event_ok cfg c ev \<and> run_ok cfg evs (handle cfg ev c))"

section \<open>Example data\<close>

definition App_config :: config where
  "App_config = destructure App_props"

text \<open>Bounds whose two ranges are empty: \<open>[60, 40]\<close>.\<close>

definition degenerate_config :: config where
  "degenerate_config =
     App_config\<lparr>minTopPct := Fin 60, minBottomPct := Fin 60,
                 minLeftPct := Fin 60, minRightPct := Fin 60\<rparr>"

text \<open>Sane bounds whose left/right range \<open>[60, 85]\<close> does not hold 50.\<close>

text \<open>The props of \<open>App\<close> with the empty string as storage key.\<close>

definition empty_key_config :: config where
  "empty_key_config = App_config\<lparr>storageKey := Some []\<rparr>"

definition narrow_config :: config where
  "narrow_config = App_config\<lparr>minLeftPct := Fin 60\<rparr>"

text \<open>Default bounds, no storage, and an initial top ratio below \<open>minTopPct\<close>.\<close>

definition low_initial_props :: FlexibleScreenProps where
  "low_initial_props =
     \<lparr> prop_minTopPct = None, prop_minBottomPct = None,
       prop_minLeftPct = None, prop_minRightPct = None,
       prop_initial = Some \<lparr> initial_topPct = Some (Fin 5), initial_leftPct = Some (Fin 50) \<rparr>,
       prop_storageKey = None \<rparr>"

text \<open>
  A page whose surface and top region have different boxes: the top region is 400 wide
  at left offset 100, the surface is 1000 by 600 at the origin.
\<close>

definition sample_dom :: dom where
  "sample_dom =
     \<lparr> containerRef = Some \<lparr> rect_left = Fin 0, rect_top = Fin 0,
                                rect_width = Fin 1000, rect_height = Fin 600 \<rparr>,
       topAreaRef = Some \<lparr> rect_left = Fin 100, rect_top = Fin 0,
                              rect_width = Fin 400, rect_height = Fin 384 \<rparr> \<rparr>"

text \<open>A page collapsed to nothing: the surface has height 0, the top region width 0.\<close>

definition collapsed_dom :: dom where
  "collapsed_dom =
     \<lparr> containerRef = Some \<lparr> rect_left = Fin 0, rect_top = Fin 50,
                                rect_width = Fin 1000, rect_height = Fin 0 \<rparr>,
       topAreaRef = Some \<lparr> rect_left = Fin 100, rect_top = Fin 50,
                              rect_width = Fin 0, rect_height = Fin 0 \<rparr> \<rparr>"

text \<open>A page whose top region is 1000 wide at the left edge of the viewport.\<close>

definition wide_dom :: dom where
  "wide_dom =
     \<lparr> containerRef = Some \<lparr> rect_left = Fin 0, rect_top = Fin 0,
                                rect_width = Fin 1000, rect_height = Fin 600 \<rparr>,
       topAreaRef = Some \<lparr> rect_left = Fin 0, rect_top = Fin 0,
                              rect_width = Fin 1000, rect_height = Fin 384 \<rparr> \<rparr>"

definition sample_component :: component where
  "sample_component = \<lparr> topPct = Fin 70, leftPct = Fin 50, dragRef = None, select_none = False \<rparr>"

definition sample_events :: "event list" where
  "sample_events =
     [ KeyDownHorizontal ''Home'',
       PointerDown vertical,
       PointerMove sample_dom \<lparr> clientX = Fin 120, clientY = Fin 200 \<rparr>,
       PointerUp,
       KeyDownVertical ''ArrowLeft'',
       PointerDown horizontal,
       PointerMove sample_dom \<lparr> clientX = Fin 300, clientY = Fin 900 \<rparr>,
       PointerCancel ]"

text \<open>
  \<open>JSON.parse\<close> and \<open>JSON.stringify\<close> tabulated at the texts and objects of the
  examples, with the results a JavaScript engine gives there.
\<close>

definition sample_engine :: platform where
  \<open>sample_engine =
     \<lparr> JSON_parse = (\<lambda>raw.
         if raw = ''{"topPct":70,"leftPct":40}'' then Inr (layout_object (Fin 70) (Fin 40))
         else if raw = ''{"topPct":70,"leftPct":48}'' then Inr (layout_object (Fin 70) (Fin 48))
         else if raw = ''null'' then Inr JNull
         else Inl SyntaxError),
       JSON_stringify = (\<lambda>v.
         if v = layout_object (Fin 70) (Fin 40) then ''{"topPct":70,"leftPct":40}''
         else if v = layout_object (Fin 70) (Fin 48) then ''{"topPct":70,"leftPct":48}''
         else ''null'') \<rparr>\<close>

definition empty_storage :: localStorage where
  "empty_storage = \<lparr> items = Map.empty, denied = False, quota = 5000000 \<rparr>"

definition denied_storage :: localStorage where
  "denied_storage = \<lparr> items = Map.empty, denied = True, quota = 5000000 \<rparr>"

section \<open>Arithmetic and clamp\<close>

lemmas sample_defs = App_config_def destructure_def App_props_def or_default_def
  sample_dom_def collapsed_dom_def wide_dom_def sample_component_def top_max_def left_max_def
  js_sub_def fl_def rnd_def round_even_def pow2_def max_double_def expo.simps Let_def

lemma clamp_in_range:
  "v \<noteq> NaN \<Longrightarrow> js_le mn mx \<Longrightarrow> in_range (clamp v mn mx) mn mx"
  by (cases v; cases mn; cases mx) (auto simp: clamp_def in_range_def)

lemma clamp_id:
  "in_range v mn mx \<Longrightarrow> clamp v mn mx = v"
  by (cases v; cases mn; cases mx) (auto simp: clamp_def in_range_def)

lemma clamp_empty_range:
  "v \<noteq> NaN \<Longrightarrow> js_le mx mn \<Longrightarrow> clamp v mn mx = mx"
  by (cases v; cases mn; cases mx) (auto simp: clamp_def)

lemma clamp_PosInf: "js_le mn mx \<Longrightarrow> clamp PosInf mn mx = mx"
  by (cases mn; cases mx) (simp_all add: clamp_def)

lemma clamp_NegInf: "js_le mn mx \<Longrightarrow> clamp NegInf mn mx = mn"
  by (cases mn; cases mx) (simp_all add: clamp_def)

lemma clamp_NaN: "clamp NaN mn mx = NaN"
  by (simp add: clamp_def)

lemma in_range_not_NaN: "in_range v mn mx \<Longrightarrow> v \<noteq> NaN"
  by (cases v) (auto simp: in_range_def)


section \<open>Rounding\<close>

text \<open>Rounding keeps the sign, and never gives \<open>NaN\<close>.\<close>

lemma pow2_pos: "0 < pow2 k"
  by (simp add: pow2_def)

lemma pow2_succ: "pow2 (k + 1) = 2 * pow2 k"
proof -
  consider "0 \<le> k" | "k = -1" | "k < -1" by linarith
  then show ?thesis
  proof cases
    case 1
    then have "nat (k + 1) = Suc (nat k)" by simp
    with 1 show ?thesis by (simp add: pow2_def)
  next
    case 2
    then show ?thesis by (simp add: pow2_def)
  next
    case 3
    then have "nat (- k) = Suc (nat (- (k + 1)))" by simp
    with 3 show ?thesis by (simp add: pow2_def)
  qed
qed

lemma pow2_pred: "pow2 (k - 1) = pow2 k / 2"
  using pow2_succ [of "k - 1"] by simp

lemma pow2_sub_nat: "pow2 (k - int n) \<le> pow2 k"
proof (induction n)
  case 0
  then show ?case by simp
next
  case (Suc n)
  have "pow2 (k - int (Suc n)) = pow2 (k - int n) / 2"
    using pow2_pred [of "k - int n"] by (simp add: algebra_simps)
  also have "\<dots> \<le> pow2 (k - int n)"
    using pow2_pos [of "k - int n"] by simp
  finally show ?case using Suc by simp
qed

lemma expo_lower: "0 < x \<Longrightarrow> pow2 (expo x) \<le> x"
proof (induction x rule: expo.induct)
  case (1 x)
  consider "2 \<le> x" | "x < 1" | "1 \<le> x" "x < 2" by linarith
  then show ?case
  proof cases
    case 1
    with "1.prems" have e: "expo x = expo (x / 2) + 1"
      by (subst expo.simps) simp
    from 1 "1.prems" have "pow2 (expo (x / 2)) \<le> x / 2"
      by (intro "1.IH"(1)) simp_all
    then show ?thesis by (simp add: e pow2_succ)
  next
    case 2
    with "1.prems" have e: "expo x = expo (x * 2) - 1"
      by (subst expo.simps) simp
    from 2 "1.prems" have "pow2 (expo (x * 2)) \<le> x * 2"
      by (intro "1.IH"(2)) simp_all
    then show ?thesis by (simp add: e pow2_pred)
  next
    case 3
    with "1.prems" have e: "expo x = 0"
      by (subst expo.simps) simp
    with 3 show ?thesis by (simp add: pow2_def)
  qed
qed

lemma round_even_ge: "of_int n \<le> y \<Longrightarrow> n \<le> round_even y"
proof -
  assume "of_int n \<le> y"
  then have "n \<le> \<lfloor>y\<rfloor>" by (simp add: le_floor_iff)
  then show ?thesis by (simp add: round_even_def Let_def)
qed

lemma rnd_zero: "rnd 0 = 0"
  by (simp add: rnd_def)

lemma rnd_pos: "0 < x \<Longrightarrow> 0 < rnd x"
proof -
  assume x: "0 < x"
  have "pow2 (expo x - 52) \<le> pow2 (expo x)"
    using pow2_sub_nat [of "expo x" 52] by simp
  also have "\<dots> \<le> x" using x by (rule expo_lower)
  finally have "1 \<le> x / pow2 (expo x - 52)"
    using pow2_pos [of "expo x - 52"] by (simp add: le_divide_eq)
  then have "1 \<le> round_even (x / pow2 (expo x - 52))"
    using round_even_ge [of 1] by simp
  then have "0 < real_of_int (round_even (x / pow2 (expo x - 52))) * pow2 (expo x - 52)"
    using pow2_pos [of "expo x - 52"] by simp
  with x show ?thesis by (simp add: rnd_def Let_def)
qed

lemma rnd_minus: "rnd (- x) = - rnd x"
  by (simp add: rnd_def Let_def sgn_minus)

lemma rnd_neg: "x < 0 \<Longrightarrow> rnd x < 0"
  using rnd_pos [of "- x"] by (simp add: rnd_minus)

lemma max_double_pos: "0 < max_double"
  by (simp add: max_double_def)

lemma fl_not_NaN [simp]: "fl x \<noteq> NaN" "NaN \<noteq> fl x"
  by (simp_all add: fl_def Let_def)

lemma fl_zero [simp]: "fl 0 = Fin 0"
  using max_double_pos by (simp add: fl_def rnd_zero)

lemma fl_pos: "0 < x \<Longrightarrow> fl x = PosInf \<or> (\<exists>r. fl x = Fin r \<and> 0 < r)"
  using rnd_pos [of x] max_double_pos by (auto simp: fl_def Let_def)

lemma fl_neg: "x < 0 \<Longrightarrow> fl x = NegInf \<or> (\<exists>r. fl x = Fin r \<and> r < 0)"
  using rnd_neg [of x] max_double_pos by (auto simp: fl_def Let_def)

section \<open>Arithmetic of the listeners\<close>

lemma sub_zero_extent:
  "js_div (js_sub (Fin a) (Fin b)) (Fin 0) =
     (if b < a then PosInf else if a < b then NegInf else NaN)"
proof -
  consider "b < a" | "a < b" | "a = b" by linarith
  then show ?thesis
  proof cases
    case 1
    with fl_pos [of "a - b"] show ?thesis
      by (auto simp: js_sub_def inf_of_sign_def)
  next
    case 2
    with fl_neg [of "a - b"] show ?thesis
      by (auto simp: js_sub_def inf_of_sign_def)
  next
    case 3
    then show ?thesis by (simp add: js_sub_def inf_of_sign_def)
  qed
qed

lemma mul_100_not_NaN: "v \<noteq> NaN \<Longrightarrow> js_mul v (Fin 100) \<noteq> NaN"
  by (cases v) (simp_all add: inf_of_sign_def)

lemma pct_zero_extent:
  "js_mul (js_div (js_sub (Fin a) (Fin b)) (Fin 0)) (Fin 100) =
     (if b < a then PosInf else if a < b then NegInf else NaN)"
  by (simp add: sub_zero_extent inf_of_sign_def)

lemma sub_step_not_NaN: "v \<noteq> NaN \<Longrightarrow> js_sub v step \<noteq> NaN"
  by (cases v) (auto simp: js_sub_def step_def)

lemma add_step_not_NaN: "v \<noteq> NaN \<Longrightarrow> js_add v step \<noteq> NaN"
  by (cases v) (auto simp: step_def)

lemma div_finite_not_NaN: "v \<noteq> NaN \<Longrightarrow> b \<noteq> 0 \<Longrightarrow> js_div v (Fin b) \<noteq> NaN"
  by (cases v) simp_all

text \<open>The percentage of a move is a number unless the move computes \<open>0 / 0\<close>.\<close>

lemma usable_pct:
  assumes "usable p origin ext"
  shows "js_mul (js_div (js_sub p origin) ext) (Fin 100) \<noteq> NaN"
proof -
  from assms obtain a b w where f: "p = Fin a" "origin = Fin b" "ext = Fin w"
    by (cases p; cases origin; cases ext) (auto simp: usable_def)
  show ?thesis
  proof (cases "w = 0")
    case True
    with assms f have "a \<noteq> b" by (auto simp: usable_def)
    with True f show ?thesis by (simp add: pct_zero_extent)
  next
    case False
    have "js_sub (Fin a) (Fin b) \<noteq> NaN" by (simp add: js_sub_def)
    with False have "js_div (js_sub (Fin a) (Fin b)) (Fin w) \<noteq> NaN"
      by (simp add: div_finite_not_NaN)
    then show ?thesis using f by (simp add: mul_100_not_NaN)
  qed
qed

section \<open>The move listener, case by case\<close>

lemma onPointerMove_idle: "dragRef c = None \<Longrightarrow> onPointerMove cfg d e c = Inr c"
  by (simp add: onPointerMove_def)

lemma onPointerMove_horizontal:
  "dragRef c = Some horizontal \<Longrightarrow> containerRef d = Some r \<Longrightarrow>
   onPointerMove cfg d e c =
     Inr (c\<lparr>topPct := clamp (js_mul (js_div (js_sub (clientY e) (rect_top r)) (rect_height r)) (Fin 100))
                          (minTopPct cfg) (top_max cfg)\<rparr>)"
  by (simp add: onPointerMove_def)

lemma onPointerMove_vertical:
  "dragRef c = Some vertical \<Longrightarrow> topAreaRef d = Some r \<Longrightarrow>
   onPointerMove cfg d e c =
     Inr (c\<lparr>leftPct := clamp (js_mul (js_div (js_sub (clientX e) (rect_left r)) (rect_width r)) (Fin 100))
                           (minLeftPct cfg) (left_max cfg)\<rparr>)"
  by (simp add: onPointerMove_def)

lemma onPointerMove_horizontal_null:
  "dragRef c = Some horizontal \<Longrightarrow> containerRef d = None \<Longrightarrow>
   onPointerMove cfg d e c = Inl TypeError"
  by (simp add: onPointerMove_def)

lemma onPointerMove_vertical_null:
  "dragRef c = Some vertical \<Longrightarrow> topAreaRef d = None \<Longrightarrow>
   onPointerMove cfg d e c = Inl TypeError"
  by (simp add: onPointerMove_def)

section \<open>The clamp invariant\<close>

lemma handleVerticalKey_ok:
  assumes "valid_bounds cfg" "layout_ok cfg c" "event_ok cfg c (KeyDownVertical key)"
  shows "layout_ok cfg (handleVerticalKey cfg key c)"
proof -
  from assms(2) have nn: "leftPct c \<noteq> NaN"
    by (auto simp: layout_ok_def dest: in_range_not_NaN)
  from assms(1) have le: "js_le (minLeftPct cfg) (left_max cfg)"
    by (simp add: valid_bounds_def)
  have l: "in_range (clamp (js_sub (leftPct c) step) (minLeftPct cfg) (left_max cfg))
             (minLeftPct cfg) (left_max cfg)"
    using nn le by (intro clamp_in_range sub_step_not_NaN)
  have r: "in_range (clamp (js_add (leftPct c) step) (minLeftPct cfg) (left_max cfg))
             (minLeftPct cfg) (left_max cfg)"
    using nn le by (intro clamp_in_range add_step_not_NaN)
  show ?thesis
    using assms(2,3) l r by (simp add: handleVerticalKey_def layout_ok_def)
qed

lemma handleHorizontalKey_ok:
  assumes "valid_bounds cfg" "layout_ok cfg c" "event_ok cfg c (KeyDownHorizontal key)"
  shows "layout_ok cfg (handleHorizontalKey cfg key c)"
proof -
  from assms(2) have nn: "topPct c \<noteq> NaN"
    by (auto simp: layout_ok_def dest: in_range_not_NaN)
  from assms(1) have le: "js_le (minTopPct cfg) (top_max cfg)"
    by (simp add: valid_bounds_def)
  have u: "in_range (clamp (js_sub (topPct c) step) (minTopPct cfg) (top_max cfg))
             (minTopPct cfg) (top_max cfg)"
    using nn le by (intro clamp_in_range sub_step_not_NaN)
  have d: "in_range (clamp (js_add (topPct c) step) (minTopPct cfg) (top_max cfg))
             (minTopPct cfg) (top_max cfg)"
    using nn le by (intro clamp_in_range add_step_not_NaN)
  show ?thesis
    using assms(2,3) u d by (simp add: handleHorizontalKey_def layout_ok_def)
qed

lemma move_ok:
  assumes "valid_bounds cfg" "layout_ok cfg c" "event_ok cfg c (PointerMove d e)"
  shows "layout_ok cfg (handle cfg (PointerMove d e) c)"
proof (cases "dragRef c")
  case None
  with assms(2) show ?thesis by (simp add: onPointerMove_idle)
next
  case (Some ty)
  note drag = this
  show ?thesis
  proof (cases ty)
    case horizontal
    show ?thesis
    proof (cases "containerRef d")
      case None
      with drag horizontal assms(2) show ?thesis
        by (simp add: onPointerMove_horizontal_null)
    next
      case (Some r)
      with assms(3) drag horizontal
      have "usable (clientY e) (rect_top r) (rect_height r)" by simp
      then have "in_range
          (clamp (js_mul (js_div (js_sub (clientY e) (rect_top r)) (rect_height r)) (Fin 100))
             (minTopPct cfg) (top_max cfg)) (minTopPct cfg) (top_max cfg)"
        using assms(1) by (intro clamp_in_range usable_pct) (simp_all add: valid_bounds_def)
      with Some drag horizontal assms(2) show ?thesis
        by (simp add: onPointerMove_horizontal layout_ok_def)
    qed
  next
    case vertical
    show ?thesis
    proof (cases "topAreaRef d")
      case None
      with drag vertical assms(2) show ?thesis
        by (simp add: onPointerMove_vertical_null)
    next
      case (Some r)
      with assms(3) drag vertical
      have "usable (clientX e) (rect_left r) (rect_width r)" by simp
      then have "in_range
          (clamp (js_mul (js_div (js_sub (clientX e) (rect_left r)) (rect_width r)) (Fin 100))
             (minLeftPct cfg) (left_max cfg)) (minLeftPct cfg) (left_max cfg)"
        using assms(1) by (intro clamp_in_range usable_pct) (simp_all add: valid_bounds_def)
      with Some drag vertical assms(2) show ?thesis
        by (simp add: onPointerMove_vertical layout_ok_def)
    qed
  qed
qed

lemma handle_ok:
  assumes "valid_bounds cfg" "layout_ok cfg c" "event_ok cfg c ev"
  shows "layout_ok cfg (handle cfg ev c)"
proof (cases ev)
  case (PointerDown ty)
  with assms(2) show ?thesis by (simp add: startDrag_def layout_ok_def)
next
  case (PointerMove d e)
  with assms show ?thesis by (simp only: move_ok)
next
  case PointerUp
  with assms(2) show ?thesis by (simp add: stopDragging_def layout_ok_def)
next
  case PointerCancel
  with assms(2) show ?thesis by (simp add: stopDragging_def layout_ok_def)
next
  case (KeyDownVertical key)
  with assms show ?thesis by (simp add: handleVerticalKey_ok del: event_ok.simps)
next
  case (KeyDownHorizontal key)
  with assms show ?thesis by (simp add: handleHorizontalKey_ok del: event_ok.simps)
qed

text \<open>
  Claim C1, as amended. Let both clamp ranges be non-empty (\<open>minTopPct <= 100 - minBottomPct\<close>
  and \<open>minLeftPct <= 100 - minRightPct\<close>) and let the state start with both ratios
  inside their ranges. Then after every sequence of pointer-down, pointer-move,
  pointer-up, pointer-cancel and key-down events \<open>topPct\<close> is within
  \<open>[minTopPct, 100 - minBottomPct]\<close> and \<open>leftPct\<close> within
  \<open>[minLeftPct, 100 - minRightPct]\<close>, provided that every move during a drag has
  finite coordinates and a finite box on the session's axis and is not exactly at the
  origin of a box of extent zero, and that Home is pressed only where the value it resets
  to (50 for \<open>leftPct\<close>, 66 for \<open>topPct\<close>) lies within the range.
\<close>

theorem clamp_invariant:
  assumes "valid_bounds cfg" and "layout_ok cfg c" and "run_ok cfg evs c"
  shows "layout_ok cfg (run cfg evs c)"
  using assms(2,3)
proof (induction evs arbitrary: c)
  case Nil
  then show ?case by simp
next
  case (Cons ev evs)
  from Cons.prems have "layout_ok cfg (handle cfg ev c)"
    using assms(1) by (simp add: handle_ok)
  with Cons show ?case by simp
qed

text \<open>
  The invariant on a run under the bounds of \<open>App\<close>, from the state \<open>App\<close> starts
  in: Home, a vertical drag to the left edge, an arrow key, a horizontal drag below the
  surface. It ends at 80 and 15.
\<close>

theorem clamp_invariant_witness:
  "valid_bounds App_config \<and> layout_ok App_config sample_component \<and>
   run_ok App_config sample_events sample_component \<and>
   layout_ok App_config (run App_config sample_events sample_component)"
proof -
  have b: "valid_bounds App_config"
    by (simp add: valid_bounds_def sample_defs)
  have c: "layout_ok App_config sample_component"
    by (simp add: layout_ok_def in_range_def sample_defs)
  have e: "run_ok App_config sample_events sample_component"
    by (simp add: sample_events_def usable_def in_range_def handleHorizontalKey_def
        handleVerticalKey_def startDrag_def stopDragging_def onPointerMove_def clamp_def
        step_def sample_defs)
  from clamp_invariant [OF b c e] b c e show ?thesis by simp
qed

lemma App_initial_state: "initialize P App_config empty_storage = sample_component"
  by (simp add: initialize_def readStored_def getItem_def empty_storage_def sample_defs)

lemma sample_run:
  "run App_config sample_events sample_component =
     \<lparr> topPct = Fin 80, leftPct = Fin 15, dragRef = None, select_none = False \<rparr>"
  by (simp add: sample_events_def handleHorizontalKey_def handleVerticalKey_def startDrag_def
      stopDragging_def onPointerMove_def clamp_def step_def sample_defs)

text \<open>
  Claim C1 as stated fails: under the bounds of \<open>App\<close>, from the state \<open>App\<close>
  starts in (70 and 50, within both ranges), a vertical drag whose pointer is at the left
  edge of a top region of width 0 computes \<open>0 / 0\<close> and writes \<open>NaN\<close> to
  \<open>leftPct\<close>, which is in no range.
\<close>

theorem clamp_invariant_counterexample:
  "layout_ok App_config sample_component \<and>
   leftPct (run App_config
              [PointerDown vertical,
               PointerMove collapsed_dom \<lparr> clientX = Fin 100, clientY = Fin 200 \<rparr>]
              sample_component) = NaN \<and>
   \<not> in_range NaN (minLeftPct App_config) (left_max App_config)"
  by (simp add: startDrag_def onPointerMove_def clamp_def in_range_def
      layout_ok_def inf_of_sign_def sample_defs)

section \<open>Pointer moves\<close>

text \<open>
  Claim C9. A pointer-move that arrives while no drag session is active
  (\<open>dragRef.current\<close> is \<open>null\<close>) changes nothing: the listener returns at once,
  whatever the geometry and the refs are, and the state is the one before.
\<close>

theorem off_drag_move_noop:
  "dragRef c = None \<Longrightarrow>
   onPointerMove cfg d e c = Inr c \<and> handle cfg (PointerMove d e) c = c"
  by (simp add: onPointerMove_def)

theorem off_drag_move_noop_witness:
  "dragRef sample_component = None \<and>
   onPointerMove App_config sample_dom \<lparr> clientX = Fin 300, clientY = Fin 200 \<rparr> sample_component
     = Inr sample_component \<and>
   handle App_config (PointerMove sample_dom \<lparr> clientX = Fin 300, clientY = Fin 200 \<rparr>)
     sample_component = sample_component"
proof -
  have h: "dragRef sample_component = None"
    by (simp add: sample_component_def)
  from off_drag_move_noop [OF h] h show ?thesis by simp
qed

text \<open>
  Claim C10. During a drag a pointer-move touches the ratio of the session's axis only:
  a vertical-axis move leaves \<open>topPct\<close> as it was and a horizontal-axis move leaves
  \<open>leftPct\<close> as it was, for every pointer position and every geometry (a \<open>null\<close> ref
  included); the drag session and the rest of the state stay too.
\<close>

theorem move_frame:
  "(dragRef c = Some vertical \<longrightarrow>
      topPct (handle cfg (PointerMove d e) c) = topPct c \<and>
      handle cfg (PointerMove d e) c = c\<lparr>leftPct := leftPct (handle cfg (PointerMove d e) c)\<rparr>) \<and>
   (dragRef c = Some horizontal \<longrightarrow>
      leftPct (handle cfg (PointerMove d e) c) = leftPct c \<and>
      handle cfg (PointerMove d e) c = c\<lparr>topPct := topPct (handle cfg (PointerMove d e) c)\<rparr>)"
  by (simp add: onPointerMove_def Let_def split: option.splits)

theorem move_frame_witness:
  "topPct (handle App_config (PointerMove sample_dom \<lparr> clientX = Fin 300, clientY = Fin 150 \<rparr>)
             (startDrag vertical sample_component)) = Fin 70 \<and>
   leftPct (handle App_config (PointerMove sample_dom \<lparr> clientX = Fin 300, clientY = Fin 150 \<rparr>)
              (startDrag horizontal sample_component)) = Fin 50"
  using
    move_frame [where c = "startDrag vertical sample_component" and cfg = App_config
      and d = sample_dom and e = "\<lparr> clientX = Fin 300, clientY = Fin 150 \<rparr>"]
    move_frame [where c = "startDrag horizontal sample_component" and cfg = App_config
      and d = sample_dom and e = "\<lparr> clientX = Fin 300, clientY = Fin 150 \<rparr>"]
  by (simp add: startDrag_def sample_component_def)




text \<open>
  Claim C5 as stated fails: the listener does not guard the geometry. Under the bounds of
  \<open>App\<close>, a vertical drag over a top region of width 0 at left offset 100, with the
  pointer at \<open>clientX = 300\<close>, moves \<open>leftPct\<close> from 50 to 85.
\<close>

theorem missing_geometry_counterexample:
  "leftPct (startDrag vertical sample_component) = Fin 50 \<and>
   leftPct (handle App_config
              (PointerMove collapsed_dom \<lparr> clientX = Fin 300, clientY = Fin 200 \<rparr>)
              (startDrag vertical sample_component)) = Fin 85 \<and>
   handle App_config
     (PointerMove collapsed_dom \<lparr> clientX = Fin 300, clientY = Fin 200 \<rparr>)
     (startDrag vertical sample_component) \<noteq> startDrag vertical sample_component"
  by (simp add: startDrag_def onPointerMove_def clamp_def inf_of_sign_def sample_defs)

text \<open>
  Claim C5, as amended. The geometry read is not guarded. With non-empty clamp ranges and
  finite coordinates, a pointer-move during a drag over a box of width 0 (axis vertical)
  or height 0 (axis horizontal) raises nothing and sets the ratio of the session's axis:
  to the upper end of its range when the pointer is beyond the box's origin, to the lower
  end when it is before it, and to \<open>NaN\<close> when it is exactly at it. The other ratio is
  unchanged.
\<close>

theorem zero_size_move:
  assumes "valid_bounds cfg" and "clientX e = Fin x" and "clientY e = Fin y"
    and "rect_left r = Fin l" and "rect_top r = Fin t"
  shows "(dragRef c = Some vertical \<and> topAreaRef d = Some r \<and> rect_width r = Fin 0 \<longrightarrow>
            onPointerMove cfg d e c =
              Inr (c\<lparr>leftPct := (if l < x then left_max cfg
                                  else if x < l then minLeftPct cfg else NaN)\<rparr>)) \<and>
         (dragRef c = Some horizontal \<and> containerRef d = Some r \<and> rect_height r = Fin 0 \<longrightarrow>
            onPointerMove cfg d e c =
              Inr (c\<lparr>topPct := (if t < y then top_max cfg
                                 else if y < t then minTopPct cfg else NaN)\<rparr>))"
proof -
  from assms(1) have "js_le (minLeftPct cfg) (left_max cfg)" "js_le (minTopPct cfg) (top_max cfg)"
    by (simp_all add: valid_bounds_def)
  with assms(2-5) show ?thesis
    by (simp add: onPointerMove_vertical onPointerMove_horizontal pct_zero_extent
        clamp_PosInf clamp_NegInf clamp_NaN)
qed

theorem zero_size_move_witness:
  "onPointerMove App_config collapsed_dom \<lparr> clientX = Fin 300, clientY = Fin 20 \<rparr>
     (startDrag vertical sample_component)
     = Inr ((startDrag vertical sample_component)\<lparr>leftPct := Fin 85\<rparr>) \<and>
   onPointerMove App_config collapsed_dom \<lparr> clientX = Fin 300, clientY = Fin 20 \<rparr>
     (startDrag horizontal sample_component)
     = Inr ((startDrag horizontal sample_component)\<lparr>topPct := Fin 20\<rparr>)"
proof -
  have b: "valid_bounds App_config"
    by (simp add: valid_bounds_def sample_defs)
  show ?thesis
    using
      zero_size_move [OF b, where c = "startDrag vertical sample_component"
        and d = collapsed_dom and e = "\<lparr> clientX = Fin 300, clientY = Fin 20 \<rparr>"
        and x = 300 and y = 20 and l = 100 and t = 50
        and r = "\<lparr> rect_left = Fin 100, rect_top = Fin 50,
                   rect_width = Fin 0, rect_height = Fin 0 \<rparr>"]
      zero_size_move [OF b, where c = "startDrag horizontal sample_component"
        and d = collapsed_dom and e = "\<lparr> clientX = Fin 300, clientY = Fin 20 \<rparr>"
        and x = 300 and y = 20 and l = 0 and t = 50
        and r = "\<lparr> rect_left = Fin 0, rect_top = Fin 50,
                   rect_width = Fin 1000, rect_height = Fin 0 \<rparr>"]
    by (simp add: startDrag_def sample_defs)
qed

section \<open>Degenerate bounds\<close>

text \<open>
  Claim C6 as stated fails: with \<open>minLeftPct = 60\<close> and \<open>minRightPct = 60\<close> the range
  is \<open>[60, 40]\<close>, and the right-arrow key moves \<open>leftPct\<close> from 50 to 40, the upper
  end \<open>100 - minRightPct\<close>, not to the lower end 60.
\<close>

theorem degenerate_range_counterexample:
  "minLeftPct degenerate_config = Fin 60 \<and>
   left_max degenerate_config = Fin 40 \<and>
   leftPct (handleVerticalKey degenerate_config ''ArrowRight'' sample_component) = Fin 40 \<and>
   leftPct (handleVerticalKey degenerate_config ''ArrowRight'' sample_component)
     \<noteq> minLeftPct degenerate_config"
  by (simp add: degenerate_config_def handleVerticalKey_def clamp_def step_def sample_defs)

text \<open>
  Claim C6, as amended. When the bounds give a clamp range with \<open>min > max\<close>, every
  clamped value that is not \<open>NaN\<close> is the range's max, \<open>100 - minRightPct\<close> for
  \<open>leftPct\<close> and \<open>100 - minBottomPct\<close> for \<open>topPct\<close>: the arrow keys and
  the pointer-moves of a drag (with usable geometry) pin the divider there.
\<close>

theorem degenerate_range_pins_max:
  assumes "mn = Fin lo" and "mx = Fin hi" and "hi < lo"
  shows "(\<forall>v. v \<noteq> NaN \<longrightarrow> clamp v mn mx = mx) \<and>
         (minLeftPct cfg = mn \<and> left_max cfg = mx \<and> leftPct c \<noteq> NaN \<longrightarrow>
            leftPct (handleVerticalKey cfg ''ArrowLeft'' c) = mx \<and>
            leftPct (handleVerticalKey cfg ''ArrowRight'' c) = mx) \<and>
         (minTopPct cfg = mn \<and> top_max cfg = mx \<and> topPct c \<noteq> NaN \<longrightarrow>
            topPct (handleHorizontalKey cfg ''ArrowUp'' c) = mx \<and>
            topPct (handleHorizontalKey cfg ''ArrowDown'' c) = mx) \<and>
         (minLeftPct cfg = mn \<and> left_max cfg = mx \<and> dragRef c = Some vertical \<and>
          topAreaRef d = Some r \<and> usable (clientX e) (rect_left r) (rect_width r) \<longrightarrow>
            leftPct (handle cfg (PointerMove d e) c) = mx) \<and>
         (minTopPct cfg = mn \<and> top_max cfg = mx \<and> dragRef c = Some horizontal \<and>
          containerRef d = Some r \<and> usable (clientY e) (rect_top r) (rect_height r) \<longrightarrow>
            topPct (handle cfg (PointerMove d e) c) = mx)"
proof -
  from assms have le: "js_le mx mn" by simp
  have pin: "v \<noteq> NaN \<Longrightarrow> clamp v mn mx = mx" for v
    using le by (simp add: clamp_empty_range)
  show ?thesis
    by (simp add: pin handleVerticalKey_def handleHorizontalKey_def
        onPointerMove_vertical onPointerMove_horizontal
        sub_step_not_NaN add_step_not_NaN usable_pct)
qed

theorem degenerate_range_pins_max_witness:
  "clamp (Fin 50) (Fin 60) (Fin 40) = Fin 40 \<and>
   leftPct (handleVerticalKey degenerate_config ''ArrowLeft'' sample_component) = Fin 40 \<and>
   leftPct (handleVerticalKey degenerate_config ''ArrowRight'' sample_component) = Fin 40 \<and>
   topPct (handleHorizontalKey degenerate_config ''ArrowUp'' sample_component) = Fin 40 \<and>
   topPct (handleHorizontalKey degenerate_config ''ArrowDown'' sample_component) = Fin 40 \<and>
   leftPct (handle degenerate_config
              (PointerMove sample_dom \<lparr> clientX = Fin 120, clientY = Fin 150 \<rparr>)
              (startDrag vertical sample_component)) = Fin 40 \<and>
   topPct (handle degenerate_config
             (PointerMove sample_dom \<lparr> clientX = Fin 120, clientY = Fin 150 \<rparr>)
             (startDrag horizontal sample_component)) = Fin 40"
proof -
  have h: "Fin 60 = Fin 60" "Fin 40 = Fin 40" "(40::real) < 60"
    by simp_all
  note v = degenerate_range_pins_max [OF h, where cfg = degenerate_config
      and d = sample_dom and e = "\<lparr> clientX = Fin 120, clientY = Fin 150 \<rparr>"]
  have cfg: "minLeftPct degenerate_config = Fin 60" "left_max degenerate_config = Fin 40"
    "minTopPct degenerate_config = Fin 60" "top_max degenerate_config = Fin 40"
    by (simp_all add: degenerate_config_def sample_defs)
  have tr: "topAreaRef sample_dom = Some \<lparr> rect_left = Fin 100, rect_top = Fin 0,
              rect_width = Fin 400, rect_height = Fin 384 \<rparr>"
    and cr: "containerRef sample_dom = Some \<lparr> rect_left = Fin 0, rect_top = Fin 0,
              rect_width = Fin 1000, rect_height = Fin 600 \<rparr>"
    by (simp_all add: sample_dom_def)
  from v [where c = sample_component]
  have keys:
    "leftPct (handleVerticalKey degenerate_config ''ArrowLeft'' sample_component) = Fin 40"
    "leftPct (handleVerticalKey degenerate_config ''ArrowRight'' sample_component) = Fin 40"
    "topPct (handleHorizontalKey degenerate_config ''ArrowUp'' sample_component) = Fin 40"
    "topPct (handleHorizontalKey degenerate_config ''ArrowDown'' sample_component) = Fin 40"
    "clamp (Fin 50) (Fin 60) (Fin 40) = Fin 40"
    by (simp_all add: cfg sample_component_def)
  from v [where c = "startDrag vertical sample_component"
      and r = "\<lparr> rect_left = Fin 100, rect_top = Fin 0,
                 rect_width = Fin 400, rect_height = Fin 384 \<rparr>"]
  have dv: "leftPct (handle degenerate_config
              (PointerMove sample_dom \<lparr> clientX = Fin 120, clientY = Fin 150 \<rparr>)
              (startDrag vertical sample_component)) = Fin 40"
    by (simp add: cfg tr usable_def startDrag_def del: handle.simps)
  from v [where c = "startDrag horizontal sample_component"
      and r = "\<lparr> rect_left = Fin 0, rect_top = Fin 0,
                 rect_width = Fin 1000, rect_height = Fin 600 \<rparr>"]
  have dh: "topPct (handle degenerate_config
              (PointerMove sample_dom \<lparr> clientX = Fin 120, clientY = Fin 150 \<rparr>)
              (startDrag horizontal sample_component)) = Fin 40"
    by (simp add: cfg cr usable_def startDrag_def del: handle.simps)
  from keys dv dh show ?thesis by simp
qed

section \<open>Keyboard and first render\<close>

text \<open>
  The arrow keys step by 2 and clamp; this part of claim C2 holds for all bounds.
\<close>

lemma arrow_keys:
  "leftPct (handleVerticalKey cfg ''ArrowLeft'' c)
     = clamp (js_sub (leftPct c) (Fin 2)) (minLeftPct cfg) (js_sub (Fin 100) (minRightPct cfg))"
  "leftPct (handleVerticalKey cfg ''ArrowRight'' c)
     = clamp (js_add (leftPct c) (Fin 2)) (minLeftPct cfg) (js_sub (Fin 100) (minRightPct cfg))"
  "topPct (handleHorizontalKey cfg ''ArrowUp'' c)
     = clamp (js_sub (topPct c) (Fin 2)) (minTopPct cfg) (js_sub (Fin 100) (minBottomPct cfg))"
  "topPct (handleHorizontalKey cfg ''ArrowDown'' c)
     = clamp (js_add (topPct c) (Fin 2)) (minTopPct cfg) (js_sub (Fin 100) (minBottomPct cfg))"
  by (simp_all add: handleVerticalKey_def handleHorizontalKey_def step_def
      left_max_def top_max_def)

text \<open>
  Claim C2, where the code departs from it. Home on the vertical-divider handle writes 50
  as it is, without the clamp that the two arrow keys of the same handler apply: under
  the bounds \<open>minLeftPct = 60\<close>, \<open>minRightPct = 15\<close> the range is \<open>[60, 85]\<close>,
  the clamped reset would be 60, and \<open>leftPct\<close> becomes 50.
\<close>

theorem home_key_unclamped:
  "leftPct (handleVerticalKey narrow_config ''Home'' c) = Fin 50 \<and>
   clamp (Fin 50) (minLeftPct narrow_config) (left_max narrow_config) = Fin 60"
  by (simp add: narrow_config_def handleVerticalKey_def clamp_def sample_defs)

text \<open>
  The stored values are clamped when the state is seeded from storage; this part of
  claim C3 holds.
\<close>

lemma initialize_stored:
  assumes "readStored P cfg ls = Some st"
  shows "topPct (initialize P cfg ls) = stored_topPct st"
    and "leftPct (initialize P cfg ls) = stored_leftPct st"
  using assms by (simp_all add: initialize_def or_default_def)

lemma readStored_clamped:
  assumes "storageKey cfg = Some k" and "k \<noteq> []" and "getItem ls k = Inr (Some raw)"
    and "raw \<noteq> []" and "JSON_parse P raw = Inr parsed"
    and "property parsed ''topPct'' = Some (JNumber t)"
    and "property parsed ''leftPct'' = Some (JNumber l)"
  shows "readStored P cfg ls =
           Some \<lparr> stored_topPct = clamp t (minTopPct cfg) (top_max cfg),
                  stored_leftPct = clamp l (minLeftPct cfg) (left_max cfg) \<rparr>"
  using assms by (simp add: readStored_def)

text \<open>Text that does not parse, a missing item and a failing read all give no stored value.\<close>

lemma readStored_fallback:
  assumes "storageKey cfg = Some k"
    and "getItem ls k = Inl err \<or> getItem ls k = Inr None \<or>
         (\<exists>raw. getItem ls k = Inr (Some raw) \<and> JSON_parse P raw = Inl SyntaxError)"
  shows "readStored P cfg ls = None"
  using assms by (auto simp: readStored_def)

text \<open>
  Claim C3, where the code departs from it. Without a stored value the state is seeded
  with \<open>initial.topPct ?? 65\<close> and \<open>initial.leftPct ?? 50\<close> as they are; the clamp
  that \<open>readStored\<close> applies to stored values is not applied to them. With the default
  bounds, no storage key and \<open>initial = { topPct: 5, leftPct: 50 }\<close> the state starts
  with \<open>topPct = 5\<close>, where the clamped value is 20.
\<close>

theorem initial_unclamped:
  "topPct (initialize P (destructure low_initial_props) ls) = Fin 5 \<and>
   clamp (Fin 5) (minTopPct (destructure low_initial_props))
                 (top_max (destructure low_initial_props)) = Fin 20"
  by (simp add: low_initial_props_def initialize_def readStored_def clamp_def sample_defs)

section \<open>Persistence\<close>

text \<open>
  Claim C7 as stated fails for the one storage key that the component treats as no key:
  with \<open>storageKey = ""\<close> the guard \<open>!storageKey\<close> skips both the write and the
  read. Persisting 70 and 40 (both within the ranges of \<open>App\<close>) writes nothing to a
  store that accepts writes, and seeding a new state gives the initial \<open>leftPct\<close> 50.
\<close>

theorem persistence_round_trip_counterexample:
  "storageKey empty_key_config = Some [] \<and>
   in_range (Fin 70) (minTopPct empty_key_config) (top_max empty_key_config) \<and>
   in_range (Fin 40) (minLeftPct empty_key_config) (left_max empty_key_config) \<and>
   persist sample_engine empty_key_config (sample_component\<lparr>leftPct := Fin 40\<rparr>) empty_storage
     = empty_storage \<and>
   leftPct (initialize sample_engine empty_key_config
              (persist sample_engine empty_key_config (sample_component\<lparr>leftPct := Fin 40\<rparr>)
                 empty_storage))
     = Fin 50"
  by (simp add: empty_key_config_def persist_def initialize_def readStored_def in_range_def
      sample_defs)

text \<open>
  Claim C7, as amended. Let the storage key be a non-empty string, let both ratios of the
  state lie within their clamp ranges, let the store accept the write, and let the
  engine's \<open>JSON.parse\<close> read back the object that its \<open>JSON.stringify\<close> wrote (a
  non-empty text). Then persisting the state and seeding a new state from the same store
  under the same key gives exactly the two ratios that were persisted.
\<close>

theorem persistence_round_trip:
  assumes "storageKey cfg = Some k" and "k \<noteq> []"
    and "in_range (topPct c) (minTopPct cfg) (top_max cfg)"
    and "in_range (leftPct c) (minLeftPct cfg) (left_max cfg)"
    and "\<not> denied ls"
    and "length (JSON_stringify P (layout_object (topPct c) (leftPct c))) \<le> quota ls"
    and "JSON_stringify P (layout_object (topPct c) (leftPct c)) \<noteq> []"
    and "JSON_parse P (JSON_stringify P (layout_object (topPct c) (leftPct c)))
           = Inr (layout_object (topPct c) (leftPct c))"
  shows "topPct (initialize P cfg (persist P cfg c ls)) = topPct c \<and>
         leftPct (initialize P cfg (persist P cfg c ls)) = leftPct c"
proof -
  let ?text = "JSON_stringify P (layout_object (topPct c) (leftPct c))"
  have w: "persist P cfg c ls = ls\<lparr>items := (items ls)(k \<mapsto> ?text)\<rparr>"
    using assms(1,2,5,6) by (simp add: persist_def persist_try_def setItem_def)
  have r: "readStored P cfg (ls\<lparr>items := (items ls)(k \<mapsto> ?text)\<rparr>) =
             Some \<lparr> stored_topPct = clamp (topPct c) (minTopPct cfg) (top_max cfg),
                    stored_leftPct = clamp (leftPct c) (minLeftPct cfg) (left_max cfg) \<rparr>"
    using assms(1,2,5,7,8) by (simp add: readStored_def getItem_def layout_object_def)
  show ?thesis
    using assms(3,4) by (simp add: initialize_def w r or_default_def clamp_id)
qed

text \<open>The example of the specification: 70 and 40 under the bounds and the key of \<open>App\<close>.\<close>

theorem persistence_round_trip_witness:
  "topPct (initialize sample_engine App_config
             (persist sample_engine App_config (sample_component\<lparr>leftPct := Fin 40\<rparr>) empty_storage))
     = Fin 70 \<and>
   leftPct (initialize sample_engine App_config
              (persist sample_engine App_config (sample_component\<lparr>leftPct := Fin 40\<rparr>) empty_storage))
     = Fin 40"
  using persistence_round_trip [of App_config "''flexible-screen-layout''"
      "sample_component\<lparr>leftPct := Fin 40\<rparr>" empty_storage sample_engine]
  by (simp add: sample_engine_def empty_storage_def in_range_def layout_object_def sample_defs)

text \<open>
  Claim C8 as stated fails for the one storage key that the component treats as no key:
  with \<open>storageKey = ""\<close> the left-arrow key changes \<open>leftPct\<close> from 50 to 48 and
  the effect returns at its guard \<open>!storageKey\<close>: nothing is written, although the
  store accepts writes.
\<close>

theorem best_effort_persistence_counterexample:
  "storageKey empty_key_config = Some [] \<and>
   commit sample_engine empty_key_config (KeyDownVertical ''ArrowLeft'')
     (sample_component, empty_storage)
     = (sample_component\<lparr>leftPct := Fin 48\<rparr>, empty_storage) \<and>
   sample_component\<lparr>leftPct := Fin 48\<rparr> \<noteq> sample_component"
  by (simp add: empty_key_config_def commit_def persist_def handleVerticalKey_def clamp_def
      step_def sample_defs)

text \<open>
  Claim C8, as amended. With a non-empty string as storage key, an event that changes
  \<open>topPct\<close> or \<open>leftPct\<close> is followed by one write of the serialised object
  \<open>{ topPct, leftPct }\<close> of the new state under the storage key. When the write fails
  (storage denied, quota exceeded) nothing is raised and the store stays as it was; in
  every case the new state is the one the event handler produced, whatever the store did.
\<close>

theorem best_effort_persistence:
  assumes "storageKey cfg = Some k" and "k \<noteq> []"
  shows "fst (commit P cfg ev (c, ls)) = handle cfg ev c \<and>
         snd (commit P cfg ev (c, ls)) =
           (let c' = handle cfg ev c;
                text = JSON_stringify P (JObject [(''topPct'', JNumber (topPct c')),
                                                  (''leftPct'', JNumber (leftPct c'))])
            in if topPct c' = topPct c \<and> leftPct c' = leftPct c then ls
               else if denied ls \<or> quota ls < length text then ls
               else ls\<lparr>items := (items ls)(k \<mapsto> text)\<rparr>)"
  using assms
  by (simp add: commit_def persist_def persist_try_def setItem_def layout_object_def Let_def)

text \<open>
  The left-arrow key from 70 and 50 under the bounds and the key of \<open>App\<close>: the state
  becomes 70 and 48 whether the store accepts the write or denies it.
\<close>

theorem best_effort_persistence_witness:
  \<open>commit sample_engine App_config (KeyDownVertical ''ArrowLeft'') (sample_component, empty_storage)
     = (sample_component\<lparr>leftPct := Fin 48\<rparr>,
        empty_storage\<lparr>items := [''flexible-screen-layout'' \<mapsto> ''{"topPct":70,"leftPct":48}'']\<rparr>) \<and>
   commit sample_engine App_config (KeyDownVertical ''ArrowLeft'') (sample_component, denied_storage)
     = (sample_component\<lparr>leftPct := Fin 48\<rparr>, denied_storage)\<close>
proof -
  have k: "storageKey App_config = Some ''flexible-screen-layout''"
    "''flexible-screen-layout'' \<noteq> []"
    by (simp_all add: sample_defs)
  have h: "handle App_config (KeyDownVertical ''ArrowLeft'') sample_component
             = sample_component\<lparr>leftPct := Fin 48\<rparr>"
    by (simp add: handleVerticalKey_def clamp_def step_def sample_defs)
  have v: "topPct sample_component = Fin 70" "leftPct sample_component = Fin 50"
    by (simp_all add: sample_component_def)
  have t: \<open>JSON_stringify sample_engine (JObject [(''topPct'', JNumber (Fin 70)),
                                                  (''leftPct'', JNumber (Fin 48))])
             = ''{"topPct":70,"leftPct":48}''\<close>
    by (simp add: sample_engine_def layout_object_def)
  have a: \<open>commit sample_engine App_config (KeyDownVertical ''ArrowLeft'')
             (sample_component, empty_storage)
           = (sample_component\<lparr>leftPct := Fin 48\<rparr>,
              empty_storage\<lparr>items := [''flexible-screen-layout'' \<mapsto> ''{"topPct":70,"leftPct":48}'']\<rparr>)\<close>
    using best_effort_persistence [OF k, of sample_engine "KeyDownVertical ''ArrowLeft''"
        sample_component empty_storage]
    by (simp add: h t v prod_eq_iff empty_storage_def del: handle.simps)
  have b: "commit sample_engine App_config (KeyDownVertical ''ArrowLeft'')
             (sample_component, denied_storage)
           = (sample_component\<lparr>leftPct := Fin 48\<rparr>, denied_storage)"
    using best_effort_persistence [OF k, of sample_engine "KeyDownVertical ''ArrowLeft''"
        sample_component denied_storage]
    by (simp add: h t v prod_eq_iff denied_storage_def del: handle.simps)
  from a b show ?thesis by simp
qed

end
